theory Spec2Isabelle
  imports Complex_Main
begin

section \<open>Bone name correspondence table (convert\_fbx\_to\_glb.py)\<close>

text \<open>
  The dictionary literal \<open>BONE_NAME_MAP\<close> (lines 27-93), kept as the association list of
  its entries in source order. Its keys are pairwise distinct (lemma \<open>BONE_NAME_MAP_keys_distinct\<close>
  below), so the first-match lookup of \<open>map_of\<close> and the last-entry-wins rule of a Python
  dictionary literal agree on it.
\<close>

definition BONE_NAME_MAP :: "(string \<times> string) list" where
  "BONE_NAME_MAP = [
   (''mixamorig:Hips'', ''mixamorig:Hips_01''),
   (''mixamorig:Spine'', ''mixamorig:Spine_02''),
   (''mixamorig:Spine1'', ''mixamorig:Spine1_03''),
   (''mixamorig:Spine2'', ''mixamorig:Spine2_04''),
   (''mixamorig:Neck'', ''mixamorig:Neck_05''),
   (''mixamorig:Head'', ''mixamorig:Head_06''),
   (''mixamorig:HeadTop_End'', ''mixamorig:HeadTop_End_07''),
   (''mixamorig:LeftShoulder'', ''mixamorig:LeftShoulder_08''),
   (''mixamorig:LeftArm'', ''mixamorig:LeftArm_09''),
   (''mixamorig:LeftForeArm'', ''mixamorig:LeftForeArm_010''),
   (''mixamorig:LeftHand'', ''mixamorig:LeftHand_011''),
   (''mixamorig:LeftHandThumb1'', ''mixamorig:LeftHandThumb1_012''),
   (''mixamorig:LeftHandThumb2'', ''mixamorig:LeftHandThumb2_013''),
   (''mixamorig:LeftHandThumb3'', ''mixamorig:LeftHandThumb3_014''),
   (''mixamorig:LeftHandThumb4'', ''mixamorig:LeftHandThumb4_015''),
   (''mixamorig:LeftHandIndex1'', ''mixamorig:LeftHandIndex1_016''),
   (''mixamorig:LeftHandIndex2'', ''mixamorig:LeftHandIndex2_017''),
   (''mixamorig:LeftHandIndex3'', ''mixamorig:LeftHandIndex3_018''),
   (''mixamorig:LeftHandIndex4'', ''mixamorig:LeftHandIndex4_019''),
   (''mixamorig:LeftHandMiddle1'', ''mixamorig:LeftHandMiddle1_020''),
   (''mixamorig:LeftHandMiddle2'', ''mixamorig:LeftHandMiddle2_021''),
   (''mixamorig:LeftHandMiddle3'', ''mixamorig:LeftHandMiddle3_022''),
   (''mixamorig:LeftHandMiddle4'', ''mixamorig:LeftHandMiddle4_023''),
   (''mixamorig:LeftHandRing1'', ''mixamorig:LeftHandRing1_024''),
   (''mixamorig:LeftHandRing2'', ''mixamorig:LeftHandRing2_025''),
   (''mixamorig:LeftHandRing3'', ''mixamorig:LeftHandRing3_026''),
   (''mixamorig:LeftHandRing4'', ''mixamorig:LeftHandRing4_027''),
   (''mixamorig:LeftHandPinky1'', ''mixamorig:LeftHandPinky1_028''),
   (''mixamorig:LeftHandPinky2'', ''mixamorig:LeftHandPinky2_029''),
   (''mixamorig:LeftHandPinky3'', ''mixamorig:LeftHandPinky3_030''),
   (''mixamorig:LeftHandPinky4'', ''mixamorig:LeftHandPinky4_031''),
   (''mixamorig:RightShoulder'', ''mixamorig:RightShoulder_032''),
   (''mixamorig:RightArm'', ''mixamorig:RightArm_033''),
   (''mixamorig:RightForeArm'', ''mixamorig:RightForeArm_034''),
   (''mixamorig:RightHand'', ''mixamorig:RightHand_035''),
   (''mixamorig:RightHandThumb1'', ''mixamorig:RightHandThumb1_036''),
   (''mixamorig:RightHandThumb2'', ''mixamorig:RightHandThumb2_037''),
   (''mixamorig:RightHandThumb3'', ''mixamorig:RightHandThumb3_038''),
   (''mixamorig:RightHandThumb4'', ''mixamorig:RightHandThumb4_039''),
   (''mixamorig:RightHandIndex1'', ''mixamorig:RightHandIndex1_040''),
   (''mixamorig:RightHandIndex2'', ''mixamorig:RightHandIndex2_041''),
   (''mixamorig:RightHandIndex3'', ''mixamorig:RightHandIndex3_042''),
   (''mixamorig:RightHandIndex4'', ''mixamorig:RightHandIndex4_043''),
   (''mixamorig:RightHandMiddle1'', ''mixamorig:RightHandMiddle1_044''),
   (''mixamorig:RightHandMiddle2'', ''mixamorig:RightHandMiddle2_045''),
   (''mixamorig:RightHandMiddle3'', ''mixamorig:RightHandMiddle3_046''),
   (''mixamorig:RightHandMiddle4'', ''mixamorig:RightHandMiddle4_047''),
   (''mixamorig:RightHandRing1'', ''mixamorig:RightHandRing1_048''),
   (''mixamorig:RightHandRing2'', ''mixamorig:RightHandRing2_049''),
   (''mixamorig:RightHandRing3'', ''mixamorig:RightHandRing3_050''),
   (''mixamorig:RightHandRing4'', ''mixamorig:RightHandRing4_051''),
   (''mixamorig:RightHandPinky1'', ''mixamorig:RightHandPinky1_052''),
   (''mixamorig:RightHandPinky2'', ''mixamorig:RightHandPinky2_053''),
   (''mixamorig:RightHandPinky3'', ''mixamorig:RightHandPinky3_054''),
   (''mixamorig:RightHandPinky4'', ''mixamorig:RightHandPinky4_055''),
   (''mixamorig:LeftUpLeg'', ''mixamorig:LeftUpLeg_056''),
   (''mixamorig:LeftLeg'', ''mixamorig:LeftLeg_057''),
   (''mixamorig:LeftFoot'', ''mixamorig:LeftFoot_058''),
   (''mixamorig:LeftToeBase'', ''mixamorig:LeftToeBase_059''),
   (''mixamorig:LeftToe_End'', ''mixamorig:LeftToe_End_060''),
   (''mixamorig:RightUpLeg'', ''mixamorig:RightUpLeg_061''),
   (''mixamorig:RightLeg'', ''mixamorig:RightLeg_062''),
   (''mixamorig:RightFoot'', ''mixamorig:RightFoot_063''),
   (''mixamorig:RightToeBase'', ''mixamorig:RightToeBase_064''),
   (''mixamorig:RightToe_End'', ''mixamorig:RightToe_End_065'')]"

datatype py_error = KeyError string

text \<open>\<open>k in d\<close> and \<open>d[k]\<close> of a Python dictionary; the subscript raises on an absent key.\<close>

definition dict_contains :: "(string \<times> string) list \<Rightarrow> string \<Rightarrow> bool" where
  "dict_contains d k = (map_of d k \<noteq> None)"

definition dict_getitem :: "(string \<times> string) list \<Rightarrow> string \<Rightarrow> py_error + string" where
  "dict_getitem d k = (case map_of d k of None \<Rightarrow> Inl (KeyError k) | Some v \<Rightarrow> Inr v)"

text \<open>
  The body of the loop in \<open>rename_bones_to_ybot_format\<close> (lines 106-108), as the name a bone
  called \<open>n\<close> carries after it: the table entry when \<open>n\<close> is a key, \<open>n\<close> itself otherwise.
\<close>

definition new_bone_name :: "string \<Rightarrow> py_error + string" where
  "new_bone_name n =
     (if dict_contains BONE_NAME_MAP n then dict_getitem BONE_NAME_MAP n else Inr n)"

text \<open>
  The specification's \<open>translate(name) -> string\<close> (section 4.1), written from its words:
  the canonical name of a table key, the input itself for every other name.
\<close>

definition translate :: "string \<Rightarrow> string" where
  "translate n = (case map_of BONE_NAME_MAP n of None \<Rightarrow> n | Some v \<Rightarrow> v)"


section \<open>Scene data (the part of the host's data model the scripts touch)\<close>

text \<open>
  The scripts run inside a 3D authoring host and act on its scene through attribute reads
  and writes. The records below carry the attributes the three scripts read or write. An
  attribute assignment is modelled as written: the attribute receives the assigned value
  (what the host may do beyond storing the value, such as altering a name that is already
  in use, is not part of the model).
  Objects and bones are compared by identity in the scripts (\<open>obj != armature\<close>,
  \<open>b.parent == root_joint\<close>); identity is an explicit number here.
\<close>

datatype obj_type = ARMATURE | MESH | EMPTY | CAMERA | LIGHT

record bone =
  bone_id :: nat
  bone_name :: string
  bone_parent :: "nat option"

text \<open>Frame numbers are floating-point in the host; they are taken as rationals.\<close>

record action =
  act_name :: string
  frame_range :: "rat \<times> rat"

record nla_strip =
  strip_name :: string
  strip_start :: int
  strip_action :: action

record nla_track =
  track_name :: string
  strips :: "nla_strip list"

record anim_data =
  ad_action :: "action option"
  nla_tracks :: "nla_track list"

text \<open>
  An object of the scene. \<open>data_name\<close> and \<open>edit_bones\<close> are \<open>obj.data.name\<close> and
  \<open>obj.data.edit_bones\<close> (an object of type \<open>ARMATURE\<close> always owns its armature data, so
  the guard \<open>if armature.data\<close> is always taken); \<open>parent\<close> refers to another object by
  identity.
\<close>

record object =
  obj_id :: nat
  obj_name :: string
  obj_type :: obj_type
  data_name :: string
  edit_bones :: "bone list"
  parent :: "nat option"
  matrix_world :: "rat list"
  animation_data :: "anim_data option"

text \<open>One constructor for each \<open>print\<close> statement of merge\_animations.py and clean\_ybot.py.\<close>

datatype message =
    Importing_model string
  | ERROR_No_armature_found_in_model
  | Found_armature string
  | Skipping_not_found string
  | Importing_animation string
  | Found_action string rat rat
  | Added_NLA_track string
  | Exporting string
  | Done_Exported_animations nat
  | Merge_complete
  | Output string
  | Update_skinned_character string
  | Input string
  | Importing_Y_Bot
  | ERROR_No_armature_found
  | Renamed_armature_to string
  | Reparented_to_root string
  | Removed_rootJoint_bone
  | Unparented_armature_from_hierarchy
  | Found_mesh_objects nat
  | Deleted_unnecessary_objects nat
  | Exporting_to string
  | Done
  | Renamed_bones_to_Y_Bot_format nat

text \<open>
  The state of one run of the host: the objects of the scene in iteration order, the next
  unused object identity, what has been printed, and the files written by the exporter
  (path and the scene that was exported).
\<close>

record bpy_state =
  objects :: "object list"
  next_id :: nat
  stdout :: "message list"
  exported :: "(string \<times> object list) list"

text \<open>
  What lies outside the scripts: which paths exist (\<open>os.path.exists\<close>) and which objects
  the two importers bring into the scene for a path. In a file's object list, \<open>parent\<close>
  is a position in that list and \<open>obj_id\<close> is not read.
\<close>

record host =
  path_exists :: "string \<Rightarrow> bool"
  gltf_objects :: "string \<Rightarrow> object list"
  fbx_objects :: "string \<Rightarrow> object list"

definition print :: "message \<Rightarrow> bpy_state \<Rightarrow> bpy_state" where
  "print m s = s\<lparr>stdout := stdout s @ [m]\<rparr>"

text \<open>\<open>bpy.ops.wm.read_factory_settings(use_empty=True)\<close>: an empty scene.\<close>

definition read_factory_settings :: "bpy_state \<Rightarrow> bpy_state" where
  "read_factory_settings s = s\<lparr>objects := []\<rparr>"

text \<open>
  \<open>bpy.ops.import_scene.gltf\<close> / \<open>.fbx\<close>: the file's objects join the scene after the
  objects already there, each under a fresh identity.
\<close>

definition fresh_copy :: "nat \<Rightarrow> nat \<times> object \<Rightarrow> object" where
  "fresh_copy base p =
     (case p of (i, ob) \<Rightarrow>
        ob\<lparr>obj_id := base + i, parent := map_option (\<lambda>q. base + q) (parent ob)\<rparr>)"

definition import_scene :: "object list \<Rightarrow> bpy_state \<Rightarrow> bpy_state" where
  "import_scene file_objs s =
     s\<lparr>objects := objects s @ map (fresh_copy (next_id s)) (enumerate 0 file_objs),
       next_id := next_id s + length file_objs\<rparr>"

text \<open>\<open>bpy.data.objects.remove(obj, do_unlink=True)\<close>.\<close>

definition objects_remove :: "object \<Rightarrow> bpy_state \<Rightarrow> bpy_state" where
  "objects_remove ob s = s\<lparr>objects := filter (\<lambda>x. obj_id x \<noteq> obj_id ob) (objects s)\<rparr>"

text \<open>
  The scripts hold the armature in a variable and mutate it through that reference. The
  model keeps the variable's value and writes it back to the scene under its identity.
\<close>

definition store_object :: "object \<Rightarrow> bpy_state \<Rightarrow> bpy_state" where
  "store_object ob s =
     s\<lparr>objects := map (\<lambda>x. if obj_id x = obj_id ob then ob else x) (objects s)\<rparr>"

text \<open>\<open>bpy.ops.export_scene.gltf(filepath=...)\<close>: the whole scene is written to the path.\<close>

definition export_scene_gltf :: "string \<Rightarrow> bpy_state \<Rightarrow> bpy_state" where
  "export_scene_gltf filepath s = s\<lparr>exported := exported s @ [(filepath, objects s)]\<rparr>"

text \<open>\<open>os.path.join\<close> on a POSIX system, for two components.\<close>

definition path_join :: "string \<Rightarrow> string \<Rightarrow> string" where
  "path_join a b =
     (case b of
        c # _ \<Rightarrow> if c = CHR ''/'' then b
                 else if a = [] \<or> last a = CHR ''/'' then a @ b else a @ ''/'' @ b
      | [] \<Rightarrow> if a = [] \<or> last a = CHR ''/'' then a @ b else a @ ''/'' @ b)"

text \<open>Python's \<open>int(x)\<close> on a number: truncation towards zero.\<close>

definition py_int :: "rat \<Rightarrow> int" where
  "py_int q = (if q < 0 then \<lceil>q\<rceil> else \<lfloor>q\<rfloor>)"


section \<open>The bone-rename pass (convert\_fbx\_to\_glb.py, lines 95-112)\<close>

text \<open>
  The loop over \<open>armature.data.edit_bones\<close>, with the counter \<open>renamed_count\<close>. A
  \<open>KeyError\<close> from the subscript would leave the loop; it is a result of the model.
\<close>

fun rename_loop :: "bone list \<Rightarrow> nat \<Rightarrow> py_error + (bone list \<times> nat)" where
  "rename_loop [] renamed_count = Inr ([], renamed_count)"
| "rename_loop (b # bs) renamed_count =
     (if dict_contains BONE_NAME_MAP (bone_name b)
      then (case dict_getitem BONE_NAME_MAP (bone_name b) of
              Inl e \<Rightarrow> Inl e
            | Inr new_name \<Rightarrow>
                (case rename_loop bs (renamed_count + 1) of
                   Inl e \<Rightarrow> Inl e
                 | Inr (bs', n) \<Rightarrow> Inr (b\<lparr>bone_name := new_name\<rparr> # bs', n)))
      else (case rename_loop bs renamed_count of
              Inl e \<Rightarrow> Inl e
            | Inr (bs', n) \<Rightarrow> Inr (b # bs', n)))"

definition rename_bones_to_ybot_format ::
    "object option \<Rightarrow> bpy_state \<Rightarrow> py_error + bpy_state" where
  "rename_bones_to_ybot_format armature s =
     (case armature of
        None \<Rightarrow> Inr s
      | Some a \<Rightarrow>
          if obj_type a \<noteq> ARMATURE then Inr s
          else (case rename_loop (edit_bones a) 0 of
                  Inl e \<Rightarrow> Inl e
                | Inr (bs', renamed_count) \<Rightarrow>
                    Inr (print (Renamed_bones_to_Y_Bot_format renamed_count)
                           (store_object (a\<lparr>edit_bones := bs'\<rparr>) s))))"

section \<open>The hierarchy normalizer (clean\_ybot.py)\<close>

text \<open>Lines 52-62: the children of \<open>_rootJoint\<close> go to root level, then the bone is removed.\<close>

definition reparent_children :: "bone \<Rightarrow> bone list \<Rightarrow> bone list" where
  "reparent_children root_joint bs =
     map (\<lambda>b. if bone_parent b = Some (bone_id root_joint) then b\<lparr>bone_parent := None\<rparr> else b) bs"

definition edit_bones_remove :: "bone \<Rightarrow> bone list \<Rightarrow> bone list" where
  "edit_bones_remove root_joint bs = filter (\<lambda>b. bone_id b \<noteq> bone_id root_joint) bs"

definition remove_root_joint :: "object \<Rightarrow> bpy_state \<Rightarrow> object \<times> bpy_state" where
  "remove_root_joint armature s =
     (case find (\<lambda>b. bone_name b = ''_rootJoint'') (edit_bones armature) of
        None \<Rightarrow> (armature, s)
      | Some root_joint \<Rightarrow>
          (let children = filter (\<lambda>b. bone_parent b = Some (bone_id root_joint))
                                 (edit_bones armature);
               s1 = fold (\<lambda>child. print (Reparented_to_root (bone_name child))) children s;
               armature' = armature\<lparr>edit_bones :=
                 edit_bones_remove root_joint
                   (reparent_children root_joint (edit_bones armature))\<rparr>
           in (armature', print Removed_rootJoint_bone (store_object armature' s1))))"

text \<open>Lines 66-72: the armature leaves its parent and gets its stored world matrix back.\<close>

definition unparent_armature :: "object \<Rightarrow> bpy_state \<Rightarrow> object \<times> bpy_state" where
  "unparent_armature armature s =
     (case parent armature of
        None \<Rightarrow> (armature, s)
      | Some _ \<Rightarrow>
          (let world_matrix = matrix_world armature;
               armature' = armature\<lparr>parent := None, matrix_world := world_matrix\<rparr>
           in (armature', print Unparented_armature_from_hierarchy (store_object armature' s))))"

text \<open>Lines 75-85: everything that is neither the armature nor a mesh is removed.\<close>

definition delete_other_objects :: "object \<Rightarrow> bpy_state \<Rightarrow> bpy_state" where
  "delete_other_objects armature s =
     (let meshes = filter (\<lambda>ob. obj_type ob = MESH) (objects s);
          s1 = print (Found_mesh_objects (length meshes)) s;
          to_delete = filter (\<lambda>ob. obj_id ob \<noteq> obj_id armature
                                   \<and> obj_id ob \<notin> set (map obj_id meshes)) (objects s1);
          s2 = fold objects_remove to_delete s1
      in print (Deleted_unnecessary_objects (length to_delete)) s2)"

text \<open>
  The whole script. \<open>exit(1)\<close> ends the process: the result carries the exit status, and
  \<open>None\<close> stands for running to the last statement.
\<close>

definition clean_ybot :: "host \<Rightarrow> string \<Rightarrow> bpy_state \<Rightarrow> nat option \<times> bpy_state" where
  "clean_ybot h characters_dir s0 =
     (let input_path = path_join characters_dir ''y_bot.glb'';
          output_path = path_join characters_dir ''y_bot_clean.glb'';
          s1 = print (Output output_path) (print (Input input_path) s0);
          s2 = print Importing_Y_Bot (read_factory_settings s1);
          s3 = import_scene (gltf_objects h input_path) s2
      in case find (\<lambda>ob. obj_type ob = ARMATURE) (objects s3) of
           None \<Rightarrow> (Some 1, print ERROR_No_armature_found s3)
         | Some found \<Rightarrow>
             (let s4 = print (Found_armature (obj_name found)) s3;
                  armature1 = found\<lparr>obj_name := ''Armature'', data_name := ''Armature''\<rparr>;
                  s5 = print (Renamed_armature_to (obj_name armature1)) (store_object armature1 s4);
                  (armature2, s6) = remove_root_joint armature1 s5;
                  (armature3, s7) = unparent_armature armature2 s6;
                  s8 = delete_other_objects armature3 s7;
                  s9 = export_scene_gltf output_path (print (Exporting_to output_path) s8)
              in (None, print (Update_skinned_character ''y_bot_clean.glb'') (print Done s9))))"

section \<open>The clip importer and merger (merge\_animations.py)\<close>

definition ANIMATIONS :: "(string \<times> string) list" where
  "ANIMATIONS =
     [(''Female Idle.fbx'', ''Idle''),
      (''Female Walking.fbx'', ''Walk''),
      (''Female Running.fbx'', ''Run''),
      (''Sprint.fbx'', ''Sprint''),
      (''Female Jump.fbx'', ''Jump'')]"

text \<open>The value of \<open>obj.animation_data and obj.animation_data.action\<close>, as an option.\<close>

definition active_action :: "object \<Rightarrow> action option" where
  "active_action ob = (case animation_data ob of None \<Rightarrow> None | Some ad \<Rightarrow> ad_action ad)"

text \<open>
  Lines 66-76, after one FBX import: the first armature of the scene other than the base
  armature gives its action (renamed) to the list, and that armature object is removed.
  The renamed action lives on in the list only, since the object holding it is removed in
  the same step.
\<close>

definition take_action ::
    "object \<Rightarrow> string \<Rightarrow> bpy_state \<times> action list \<Rightarrow> bpy_state \<times> action list" where
  "take_action armature action_name sa =
     (case sa of (s, actions) \<Rightarrow>
        (case find (\<lambda>ob. obj_type ob = ARMATURE \<and> obj_id ob \<noteq> obj_id armature) (objects s) of
           None \<Rightarrow> (s, actions)
         | Some ob \<Rightarrow>
             (case active_action ob of
                None \<Rightarrow> (objects_remove ob s, actions)
              | Some act \<Rightarrow>
                  (let action = act\<lparr>act_name := action_name\<rparr>
                   in (objects_remove ob
                         (print (Found_action action_name (fst (frame_range action))
                                   (snd (frame_range action))) s),
                       actions @ [action])))))"

text \<open>Lines 50-76: the loop over the clip list.\<close>

fun import_animations ::
    "host \<Rightarrow> string \<Rightarrow> object \<Rightarrow> (string \<times> string) list
       \<Rightarrow> bpy_state \<times> action list \<Rightarrow> bpy_state \<times> action list" where
  "import_animations h animations_dir armature [] sa = sa"
| "import_animations h animations_dir armature ((fbx_name, action_name) # rest) sa =
     (case sa of (s, actions) \<Rightarrow>
        (let fbx_path = path_join animations_dir fbx_name
         in if \<not> path_exists h fbx_path
            then import_animations h animations_dir armature rest
                   (print (Skipping_not_found fbx_name) s, actions)
            else import_animations h animations_dir armature rest
                   (take_action armature action_name
                      (import_scene (fbx_objects h fbx_path)
                         (print (Importing_animation fbx_name) s), actions))))"

text \<open>Lines 79-80.\<close>

definition animation_data_create :: "object \<Rightarrow> object" where
  "animation_data_create ob =
     ob\<lparr>animation_data := Some \<lparr>ad_action = None, nla_tracks = []\<rparr>\<rparr>"

definition ensure_animation_data :: "object \<Rightarrow> object" where
  "ensure_animation_data ob =
     (if animation_data ob = None then animation_data_create ob else ob)"

text \<open>
  Lines 84-87, one pass of the loop on the armature: a new track, named after the action,
  is added behind the existing ones and holds one strip for the action. (The armature has
  animation data at this point, by lines 79-80.)
\<close>

definition nla_tracks_new :: "action \<Rightarrow> object \<Rightarrow> object" where
  "nla_tracks_new action ob =
     ob\<lparr>animation_data :=
          map_option (\<lambda>ad. ad\<lparr>nla_tracks := nla_tracks ad @
              [\<lparr>track_name = act_name action,
                strips = [\<lparr>strip_name = act_name action,
                           strip_start = py_int (fst (frame_range action)),
                           strip_action = action\<rparr>]\<rparr>]\<rparr>)
            (animation_data ob)\<rparr>"

text \<open>Lines 83-88: the loop over the collected actions.\<close>

fun push_nla_tracks :: "action list \<Rightarrow> object \<times> bpy_state \<Rightarrow> object \<times> bpy_state" where
  "push_nla_tracks [] as = as"
| "push_nla_tracks (action # rest) as =
     (case as of (armature, s) \<Rightarrow>
        (let armature' = nla_tracks_new action armature
         in push_nla_tracks rest
              (armature', print (Added_NLA_track (act_name action))
                            (store_object armature' s))))"

text \<open>Lines 91-92.\<close>

definition set_active_action :: "action list \<Rightarrow> object \<Rightarrow> object" where
  "set_active_action actions ob =
     (case actions of
        [] \<Rightarrow> ob
      | first # _ \<Rightarrow>
          ob\<lparr>animation_data := map_option (\<lambda>ad. ad\<lparr>ad_action := Some first\<rparr>) (animation_data ob)\<rparr>)"

text \<open>
  Lines 78-92, the clip merger: the collected actions become tracks of the armature, the
  first one becomes its active action.
\<close>

definition merge_clips :: "action list \<Rightarrow> object \<times> bpy_state \<Rightarrow> object \<times> bpy_state" where
  "merge_clips actions as =
     (case as of (armature, s) \<Rightarrow>
        (let armature1 = ensure_animation_data armature;
             (armature2, s1) = push_nla_tracks actions (armature1, store_object armature1 s);
             armature3 = set_active_action actions armature2
         in (armature3, store_object armature3 s1)))"

text \<open>
  The function \<open>merge_animations_into_model\<close>. The module-level \<open>animations_dir\<close> is a
  parameter. The early \<open>return\<close> of line 42 is the \<open>None\<close> branch.
\<close>

definition merge_animations_into_model ::
    "host \<Rightarrow> string \<Rightarrow> string \<Rightarrow> string \<Rightarrow> (string \<times> string) list
       \<Rightarrow> bpy_state \<Rightarrow> bpy_state" where
  "merge_animations_into_model h animations_dir model_glb_path output_glb_path animation_files s0 =
     (let s1 = print (Importing_model model_glb_path) (read_factory_settings s0);
          s2 = import_scene (gltf_objects h model_glb_path) s1
      in case find (\<lambda>ob. obj_type ob = ARMATURE) (objects s2) of
           None \<Rightarrow> print ERROR_No_armature_found_in_model s2
         | Some armature \<Rightarrow>
             (let s3 = print (Found_armature (obj_name armature)) s2;
                  (s4, actions) = import_animations h animations_dir armature animation_files (s3, []);
                  (armature', s5) = merge_clips actions (armature, s4);
                  s6 = export_scene_gltf output_glb_path (print (Exporting output_glb_path) s5)
              in print (Done_Exported_animations (length actions)) s6))"

text \<open>The statements of the script after the function definition (lines 112-119).\<close>

definition merge_animations_script :: "host \<Rightarrow> string \<Rightarrow> bpy_state \<Rightarrow> bpy_state" where
  "merge_animations_script h characters_dir s0 =
     (let animations_dir = path_join (path_join characters_dir ''animations'') ''scripts'';
          ybot_input = path_join characters_dir ''y_bot.glb'';
          ybot_output = path_join characters_dir ''y_bot_animated.glb'';
          s1 = merge_animations_into_model h animations_dir ybot_input ybot_output ANIMATIONS s0
      in print (Update_skinned_character ''y_bot_animated.glb'')
           (print (Output ybot_output) (print Merge_complete s1)))"

section \<open>Observations used to state the properties\<close>

definition track_order :: "object \<Rightarrow> string list" where
  "track_order ob =
     (case animation_data ob of None \<Rightarrow> [] | Some ad \<Rightarrow> map track_name (nla_tracks ad))"

definition active_clip :: "object \<Rightarrow> string option" where
  "active_clip ob =
     (case animation_data ob of None \<Rightarrow> None | Some ad \<Rightarrow> map_option act_name (ad_action ad))"


text \<open>The armature value after lines 52-62 and after lines 66-72 of clean\_ybot.py.\<close>

definition without_root_joint :: "object \<Rightarrow> object" where
  "without_root_joint a =
     (case find (\<lambda>b. bone_name b = ''_rootJoint'') (edit_bones a) of
        None \<Rightarrow> a
      | Some rj \<Rightarrow> a\<lparr>edit_bones := edit_bones_remove rj (reparent_children rj (edit_bones a))\<rparr>)"

definition unparented :: "object \<Rightarrow> object" where
  "unparented a =
     (case parent a of None \<Rightarrow> a
      | Some _ \<Rightarrow> a\<lparr>parent := None, matrix_world := matrix_world a\<rparr>)"



text \<open>The first armature of a list of objects (of a scene, a file or an exported asset).\<close>

definition armature_of :: "object list \<Rightarrow> object option" where
  "armature_of objs = find (\<lambda>ob. obj_type ob = ARMATURE) objs"





section \<open>Example scenes\<close>

text \<open>Concrete objects, hosts and a start state, for evaluating the scripts.\<close>

definition identity_matrix :: "rat list" where
  "identity_matrix = [1, 0, 0, 0,  0, 1, 0, 0,  0, 0, 1, 0,  0, 0, 0, 1]"

definition armature_object :: "string \<Rightarrow> bone list \<Rightarrow> action option \<Rightarrow> object" where
  "armature_object name bones act =
     \<lparr>obj_id = 0, obj_name = name, obj_type = ARMATURE, data_name = name, edit_bones = bones,
      parent = None, matrix_world = identity_matrix,
      animation_data = (case act of None \<Rightarrow> None
                        | Some a \<Rightarrow> Some \<lparr>ad_action = Some a, nla_tracks = []\<rparr>)\<rparr>"

definition plain_object :: "string \<Rightarrow> obj_type \<Rightarrow> nat option \<Rightarrow> object" where
  "plain_object name ty par =
     \<lparr>obj_id = 0, obj_name = name, obj_type = ty, data_name = name, edit_bones = [],
      parent = par, matrix_world = identity_matrix, animation_data = None\<rparr>"

definition example_clip :: action where
  "example_clip = \<lparr>act_name = ''Armature|mixamo.com|Layer0'', frame_range = (1, 30)\<rparr>"

definition example_host :: "string list \<Rightarrow> object list \<Rightarrow> host" where
  "example_host present geometry =
     \<lparr>path_exists = (\<lambda>p. p \<in> set present),
      gltf_objects = (\<lambda>p. if p = ''base.glb''
                          then [armature_object ''Armature'' [] None,
                                plain_object ''Body'' MESH (Some 0)]
                          else if p = ''prop.glb'' then [plain_object ''Crate'' MESH None]
                          else []),
      fbx_objects = (\<lambda>p. if p \<in> set [''anims/a.src'', ''anims/b.src'', ''anims/c.src'']
                         then armature_object ''Armature'' [] (Some example_clip) # geometry
                         else [])\<rparr>"


definition fresh_state :: bpy_state where
  "fresh_state = \<lparr>objects = [], next_id = 0, stdout = [], exported = []\<rparr>"

section \<open>The clip merger: tracks and active action\<close>

lemma obj_id_nla_tracks_new [simp]: "obj_id (nla_tracks_new action ob) = obj_id ob"
  by (simp add: nla_tracks_new_def)

lemma obj_type_nla_tracks_new [simp]: "obj_type (nla_tracks_new action ob) = obj_type ob"
  by (simp add: nla_tracks_new_def)

lemma obj_id_fold_nla_tracks_new [simp]: "obj_id (fold nla_tracks_new actions ob) = obj_id ob"
  by (induction actions arbitrary: ob) simp_all

lemma obj_type_fold_nla_tracks_new [simp]: "obj_type (fold nla_tracks_new actions ob) = obj_type ob"
  by (induction actions arbitrary: ob) simp_all

lemma store_object_twice:
  "obj_id a = obj_id b \<Longrightarrow> store_object b (store_object a s) = store_object b s"
  by (simp add: store_object_def o_def cong: if_cong)

lemma store_object_print: "store_object a (print m s) = print m (store_object a s)"
  by (simp add: store_object_def print_def)





lemma track_order_set_active_action [simp]:
  "track_order (set_active_action actions ob) = track_order ob"
  by (auto simp: track_order_def set_active_action_def split: list.splits option.splits)

lemma obj_id_set_active_action [simp]: "obj_id (set_active_action actions ob) = obj_id ob"
  by (simp add: set_active_action_def split: list.splits)

lemma obj_type_set_active_action [simp]: "obj_type (set_active_action actions ob) = obj_type ob"
  by (simp add: set_active_action_def split: list.splits)


lemma ensure_animation_data_props [simp]:
  "animation_data (ensure_animation_data ob) \<noteq> None"
  "track_order (ensure_animation_data ob) = track_order ob"
  "obj_id (ensure_animation_data ob) = obj_id ob"
  "obj_type (ensure_animation_data ob) = obj_type ob"
  by (auto simp: ensure_animation_data_def animation_data_create_def track_order_def)





section \<open>The clip importer: one import step and the loop\<close>

lemma fresh_copy_simps [simp]:
  "obj_id (fresh_copy b (i, ob)) = b + i"
  "obj_type (fresh_copy b (i, ob)) = obj_type ob"
  "active_action (fresh_copy b (i, ob)) = active_action ob"
  "animation_data (fresh_copy b (i, ob)) = animation_data ob"
  "edit_bones (fresh_copy b (i, ob)) = edit_bones ob"
  "obj_name (fresh_copy b (i, ob)) = obj_name ob"
  by (simp_all add: fresh_copy_def active_action_def)

lemma in_fresh_copies:
  assumes "x \<in> set (map (fresh_copy b) (enumerate n xs))"
  obtains i y where "x = fresh_copy b (i, y)" "n \<le> i" "i < n + length xs" "y \<in> set xs"
proof -
  from assms obtain p where p: "p \<in> set (enumerate n xs)" and x: "x = fresh_copy b p" by auto
  from p have "n \<le> fst p" "fst p < length xs + n" "xs ! (fst p - n) = snd p"
    by (simp_all add: in_set_enumerate_eq)
  note q = this
  from q(1,2) have "fst p - n < length xs" by arith
  then have "xs ! (fst p - n) \<in> set xs" by (rule nth_mem)
  with q(3) have "snd p \<in> set xs" by simp
  moreover from q(2) have "fst p < n + length xs" by arith
  moreover from x have "x = fresh_copy b (fst p, snd p)" by simp
  ultimately show ?thesis using q(1) by (intro that[of "fst p" "snd p"])
qed










section \<open>A whole merge job\<close>




lemma active_clip_ensure_animation_data [simp]:
  "active_clip (ensure_animation_data ob) = active_clip ob"
  by (auto simp: ensure_animation_data_def animation_data_create_def active_clip_def)









section \<open>A base asset without a skeleton\<close>

lemma import_no_armature:
  assumes empty: "objects s = []" and none: "armature_of objs = None"
  shows "find (\<lambda>ob. obj_type ob = ARMATURE) (objects (import_scene objs s)) = None"
proof -
  from none have no: "\<forall>x\<in>set objs. obj_type x \<noteq> ARMATURE"
    unfolding armature_of_def find_None_iff by blast
  have "\<forall>x\<in>set (objects (import_scene objs s)). obj_type x \<noteq> ARMATURE"
  proof
    fix x assume "x \<in> set (objects (import_scene objs s))"
    then have "x \<in> set (map (fresh_copy (next_id s)) (enumerate 0 objs))"
      by (simp add: import_scene_def empty)
    then obtain i y where "x = fresh_copy (next_id s) (i, y)" "y \<in> set objs"
      by (rule in_fresh_copies)
    with no show "obj_type x \<noteq> ARMATURE" by simp
  qed
  then show ?thesis unfolding find_None_iff by blast
qed

lemma merge_no_armature:
  assumes "armature_of (gltf_objects h model) = None"
  shows "merge_animations_into_model h dir model out files s0 =
           print ERROR_No_armature_found_in_model
             (import_scene (gltf_objects h model)
                (print (Importing_model model) (read_factory_settings s0)))"
proof -
  have "objects (print (Importing_model model) (read_factory_settings s0)) = []"
    by (simp add: print_def read_factory_settings_def)
  from import_no_armature[OF this assms] show ?thesis
    unfolding merge_animations_into_model_def by (simp add: Let_def)
qed

lemma merge_after_reset:
  assumes "read_factory_settings s = read_factory_settings s'"
  shows "merge_animations_into_model h dir model out files s
         = merge_animations_into_model h dir model out files s'"
  unfolding merge_animations_into_model_def assms ..

lemma clean_ybot_no_armature:
  assumes "armature_of (gltf_objects h (path_join cdir ''y_bot.glb'')) = None"
  shows "clean_ybot h cdir s0 =
           (Some 1, print ERROR_No_armature_found
              (import_scene (gltf_objects h (path_join cdir ''y_bot.glb''))
                 (print Importing_Y_Bot (read_factory_settings
                    (print (Output (path_join cdir ''y_bot_clean.glb''))
                       (print (Input (path_join cdir ''y_bot.glb'')) s0))))))"
proof -
  have "objects (print Importing_Y_Bot (read_factory_settings
                    (print (Output (path_join cdir ''y_bot_clean.glb''))
                       (print (Input (path_join cdir ''y_bot.glb'')) s0)))) = []"
    by (simp add: print_def read_factory_settings_def)
  from import_no_armature[OF this assms] show ?thesis
    unfolding clean_ybot_def by (simp add: Let_def)
qed

text \<open>
  Claim C6. When the base asset brings no armature into the scene,
  \<open>merge_animations_into_model\<close> reports the failure (its message
  \<open>ERROR: No armature found in model!\<close>, the condition the specification calls
  MissingSkeletonError) and returns without writing any file; a job run after it starts
  from an empty scene and behaves as if the failed job had only printed its messages; the
  statements of the script after the call still run. \<open>clean_ybot.py\<close>, which holds a
  single job, reports the same condition and ends with exit status 1, again without
  writing a file.
\<close>

theorem missing_skeleton_fails_job:
  "(armature_of (gltf_objects h model) = None \<longrightarrow>
      exported (merge_animations_into_model h dir model out files s0) = exported s0
      \<and> stdout (merge_animations_into_model h dir model out files s0)
          = stdout s0 @ [Importing_model model, ERROR_No_armature_found_in_model]
      \<and> merge_animations_into_model h' dir' model' out' files'
            (merge_animations_into_model h dir model out files s0)
          = merge_animations_into_model h' dir' model' out' files'
              (s0\<lparr>next_id := next_id (merge_animations_into_model h dir model out files s0),
                  stdout := stdout (merge_animations_into_model h dir model out files s0)\<rparr>))
   \<and> (armature_of (gltf_objects h (path_join cdir ''y_bot.glb'')) = None \<longrightarrow>
      exported (merge_animations_script h cdir s0) = exported s0
      \<and> stdout (merge_animations_script h cdir s0)
          = stdout s0 @ [Importing_model (path_join cdir ''y_bot.glb''),
                         ERROR_No_armature_found_in_model,
                         Merge_complete,
                         Output (path_join cdir ''y_bot_animated.glb''),
                         Update_skinned_character ''y_bot_animated.glb'']
      \<and> fst (clean_ybot h cdir s0) = Some 1
      \<and> exported (snd (clean_ybot h cdir s0)) = exported s0
      \<and> stdout (snd (clean_ybot h cdir s0))
          = stdout s0 @ [Input (path_join cdir ''y_bot.glb''),
                         Output (path_join cdir ''y_bot_clean.glb''),
                         Importing_Y_Bot, ERROR_No_armature_found])"
proof (intro conjI impI)
  let ?r = "merge_animations_into_model h dir model out files s0"
  assume none: "armature_of (gltf_objects h model) = None"
  note r = merge_no_armature[OF none, of dir out files s0]
  show e: "exported ?r = exported s0"
    unfolding r by (simp add: print_def import_scene_def read_factory_settings_def)
  show "stdout ?r = stdout s0 @ [Importing_model model, ERROR_No_armature_found_in_model]"
    unfolding r by (simp add: print_def import_scene_def read_factory_settings_def)
  have "read_factory_settings ?r
        = read_factory_settings (s0\<lparr>next_id := next_id ?r, stdout := stdout ?r\<rparr>)"
    using e by (cases ?r, cases s0) (simp add: read_factory_settings_def)
  then show "merge_animations_into_model h' dir' model' out' files' ?r
          = merge_animations_into_model h' dir' model' out' files'
              (s0\<lparr>next_id := next_id ?r, stdout := stdout ?r\<rparr>)"
    by (rule merge_after_reset)
next
  assume none: "armature_of (gltf_objects h (path_join cdir ''y_bot.glb'')) = None"
  note r = merge_no_armature[OF none]
  show "exported (merge_animations_script h cdir s0) = exported s0"
    unfolding merge_animations_script_def Let_def r
    by (simp add: print_def import_scene_def read_factory_settings_def)
  show "stdout (merge_animations_script h cdir s0)
          = stdout s0 @ [Importing_model (path_join cdir ''y_bot.glb''),
                         ERROR_No_armature_found_in_model,
                         Merge_complete,
                         Output (path_join cdir ''y_bot_animated.glb''),
                         Update_skinned_character ''y_bot_animated.glb'']"
    unfolding merge_animations_script_def Let_def r
    by (simp add: print_def import_scene_def read_factory_settings_def)
  note c = clean_ybot_no_armature[OF none, of s0]
  show "fst (clean_ybot h cdir s0) = Some 1" unfolding c by simp
  show "exported (snd (clean_ybot h cdir s0)) = exported s0"
    unfolding c by (simp add: print_def import_scene_def read_factory_settings_def)
  show "stdout (snd (clean_ybot h cdir s0))
          = stdout s0 @ [Input (path_join cdir ''y_bot.glb''),
                         Output (path_join cdir ''y_bot_clean.glb''),
                         Importing_Y_Bot, ERROR_No_armature_found]"
    unfolding c by (simp add: print_def import_scene_def read_factory_settings_def)
qed

theorem missing_skeleton_fails_job_witness:
  "armature_of (gltf_objects (example_host [] []) ''prop.glb'') = None
   \<and> exported (merge_animations_into_model (example_host [] []) ''anims'' ''prop.glb'' ''out.glb''
                 ANIMATIONS fresh_state) = []
   \<and> stdout (merge_animations_into_model (example_host [] []) ''anims'' ''prop.glb'' ''out.glb''
                 ANIMATIONS fresh_state)
       = [Importing_model ''prop.glb'', ERROR_No_armature_found_in_model]
   \<and> fst (clean_ybot (example_host [] []) ''chars'' fresh_state) = Some 1
   \<and> exported (snd (clean_ybot (example_host [] []) ''chars'' fresh_state)) = []"
proof -
  have a: "armature_of (gltf_objects (example_host [] []) ''prop.glb'') = None" by code_simp
  have b: "armature_of (gltf_objects (example_host [] []) (path_join ''chars'' ''y_bot.glb'')) = None"
    by code_simp
  have c: "exported fresh_state = []" "stdout fresh_state = []" by (simp_all add: fresh_state_def)
  from a b missing_skeleton_fails_job[of "example_host [] []" "''prop.glb''" "''anims''" "''out.glb''"
      ANIMATIONS fresh_state "example_host [] []" "''anims''" "''base.glb''" "''out2.glb''" ANIMATIONS "''chars''"]
  show ?thesis unfolding c by simp
qed

section \<open>What the clip importer leaves in the scene\<close>




section \<open>The hierarchy normalizer: bones and scene after the script\<close>






lemma fold_print_fields [simp]:
  "objects (fold (\<lambda>c. print (f c)) cs s) = objects s"
  "exported (fold (\<lambda>c. print (f c)) cs s) = exported s"
  by (induction cs arbitrary: s) (simp_all add: print_def)

lemma print_fields [simp]:
  "objects (print m s) = objects s" "exported (print m s) = exported s"
  "next_id (print m s) = next_id s"
  by (simp_all add: print_def)

lemma store_object_fields [simp]:
  "objects (store_object a s) = map (\<lambda>x. if obj_id x = obj_id a then a else x) (objects s)"
  "exported (store_object a s) = exported s"
  by (simp_all add: store_object_def)



lemma without_root_joint_fields [simp]:
  "obj_id (without_root_joint a) = obj_id a"
  "obj_type (without_root_joint a) = obj_type a"
  "obj_name (without_root_joint a) = obj_name a"
  "parent (without_root_joint a) = parent a"
  by (simp_all add: without_root_joint_def split: option.splits)




lemma unparented_fields [simp]:
  "obj_id (unparented a) = obj_id a"
  "obj_type (unparented a) = obj_type a"
  "obj_name (unparented a) = obj_name a"
  "edit_bones (unparented a) = edit_bones a"
  "parent (unparented a) = None"
  "matrix_world (unparented a) = matrix_world a"
  by (simp_all add: unparented_def split: option.splits)











section \<open>Properties of the name table and the rename pass\<close>

lemma BONE_NAME_MAP_keys_distinct: "distinct (map fst BONE_NAME_MAP)"
  by code_simp


lemma BONE_NAME_MAP_values_not_keys:
  "list_all (\<lambda>v. map_of BONE_NAME_MAP v = None) (map snd BONE_NAME_MAP)"
  by code_simp

lemma value_not_key: "map_of BONE_NAME_MAP k = Some v \<Longrightarrow> map_of BONE_NAME_MAP v = None"
proof -
  assume "map_of BONE_NAME_MAP k = Some v"
  then have "(k, v) \<in> set BONE_NAME_MAP" by (rule map_of_SomeD)
  then have "v \<in> set (map snd BONE_NAME_MAP)" by force
  moreover have "\<forall>w \<in> set (map snd BONE_NAME_MAP). map_of BONE_NAME_MAP w = None"
    using BONE_NAME_MAP_values_not_keys unfolding list_all_iff .
  ultimately show ?thesis by blast
qed


lemma translate_idem: "translate (translate x) = translate x"
  by (auto simp: translate_def dest: value_not_key split: option.splits)

lemma new_bone_name_eq: "new_bone_name n = Inr (translate n)"
  by (simp add: new_bone_name_def translate_def dict_contains_def dict_getitem_def split: option.splits)

lemma translate_absent: "\<not> dict_contains BONE_NAME_MAP n \<Longrightarrow> translate n = n"
  by (simp add: translate_def dict_contains_def)

lemma translate_not_key: "\<not> dict_contains BONE_NAME_MAP (translate n)"
  by (auto simp: translate_def dict_contains_def dest: value_not_key split: option.splits)

lemma rename_loop_eq:
  "rename_loop bs c =
     Inr (map (\<lambda>b. b\<lparr>bone_name := translate (bone_name b)\<rparr>) bs,
          c + length (filter (\<lambda>b. dict_contains BONE_NAME_MAP (bone_name b)) bs))"
proof (induction bs arbitrary: c)
  case Nil
  show ?case by simp
next
  case (Cons b bs)
  show ?case
  proof (cases "dict_contains BONE_NAME_MAP (bone_name b)")
    case True
    then obtain v where v: "map_of BONE_NAME_MAP (bone_name b) = Some v"
      by (auto simp: dict_contains_def)
    with True show ?thesis
      by (simp add: Cons.IH dict_getitem_def translate_def)
  next
    case False
    then have "translate (bone_name b) = bone_name b" by (rule translate_absent)
    with False show ?thesis by (simp add: Cons.IH)
  qed
qed



lemma rename_loop_again:
  assumes "rename_loop bs n = Inr (bs', n')"
  shows "rename_loop bs' m = Inr (bs', m)"
proof -
  from assms have bs': "bs' = map (\<lambda>b. b\<lparr>bone_name := translate (bone_name b)\<rparr>) bs"
    by (simp add: rename_loop_eq)
  have "map (\<lambda>b. b\<lparr>bone_name := translate (bone_name b)\<rparr>) bs' = bs'"
    unfolding bs' by (simp add: translate_idem)
  moreover have "filter (\<lambda>b. dict_contains BONE_NAME_MAP (bone_name b)) bs' = []"
    unfolding bs' by (simp add: translate_not_key)
  ultimately show ?thesis
    by (simp add: rename_loop_eq)
qed

text \<open>
  Claim C3. The translation is idempotent: translating a translated name gives the same
  name again, for the specification's \<open>translate\<close> and for the loop body as the code
  has it; a second run of the rename loop over an already renamed bone list returns that
  list unchanged; and \<open>rename_bones_to_ybot_format\<close>, applied again to the renamed
  armature, leaves the scene as it is and reports 0 renamed bones.
\<close>

theorem translate_idempotent:
  "translate (translate x) = translate x
   \<and> (new_bone_name x = Inr y \<longrightarrow> new_bone_name y = Inr y)
   \<and> (rename_loop bs n = Inr (bs', n') \<longrightarrow> rename_loop bs' m = Inr (bs', m))
   \<and> (obj_type a = ARMATURE \<and> rename_loop (edit_bones a) 0 = Inr (renamed, k) \<longrightarrow>
        rename_bones_to_ybot_format (Some a) s
          = Inr (print (Renamed_bones_to_Y_Bot_format k)
                   (store_object (a\<lparr>edit_bones := renamed\<rparr>) s))
        \<and> rename_bones_to_ybot_format (Some (a\<lparr>edit_bones := renamed\<rparr>))
             (print (Renamed_bones_to_Y_Bot_format k)
                (store_object (a\<lparr>edit_bones := renamed\<rparr>) s))
          = Inr (print (Renamed_bones_to_Y_Bot_format 0)
                   (print (Renamed_bones_to_Y_Bot_format k)
                      (store_object (a\<lparr>edit_bones := renamed\<rparr>) s))))"
proof (intro conjI impI)
  show "translate (translate x) = translate x" by (rule translate_idem)
next
  assume h: "obj_type a = ARMATURE \<and> rename_loop (edit_bones a) 0 = Inr (renamed, k)"
  then show "rename_bones_to_ybot_format (Some a) s
          = Inr (print (Renamed_bones_to_Y_Bot_format k)
                   (store_object (a\<lparr>edit_bones := renamed\<rparr>) s))"
    by (simp add: rename_bones_to_ybot_format_def)
next
  assume h: "obj_type a = ARMATURE \<and> rename_loop (edit_bones a) 0 = Inr (renamed, k)"
  let ?a' = "a\<lparr>edit_bones := renamed\<rparr>"
  from h have "rename_loop (edit_bones a) 0 = Inr (renamed, k)" by blast
  then have "rename_loop renamed 0 = Inr (renamed, 0)" by (rule rename_loop_again)
  then have "rename_loop (edit_bones ?a') 0 = Inr (renamed, 0)" by simp
  moreover have "?a'\<lparr>edit_bones := renamed\<rparr> = ?a'" by simp
  moreover have "store_object ?a' (print (Renamed_bones_to_Y_Bot_format k) (store_object ?a' s))
                 = print (Renamed_bones_to_Y_Bot_format k) (store_object ?a' s)"
    by (simp add: store_object_print store_object_twice)
  moreover have "obj_type ?a' = ARMATURE" using h by simp
  ultimately show "rename_bones_to_ybot_format (Some ?a')
             (print (Renamed_bones_to_Y_Bot_format k) (store_object ?a' s))
          = Inr (print (Renamed_bones_to_Y_Bot_format 0)
                   (print (Renamed_bones_to_Y_Bot_format k) (store_object ?a' s)))"
    by (simp add: rename_bones_to_ybot_format_def)
next
  assume "new_bone_name x = Inr y"
  then have "y = translate x" by (simp add: new_bone_name_eq)
  then show "new_bone_name y = Inr y" by (simp add: new_bone_name_eq translate_idem)
next
  assume "rename_loop bs n = Inr (bs', n')"
  then show "rename_loop bs' m = Inr (bs', m)" by (rule rename_loop_again)
qed

theorem translate_idempotent_witness:
  "new_bone_name ''mixamorig:Hips'' = Inr ''mixamorig:Hips_01''
   \<and> new_bone_name ''mixamorig:Hips_01'' = Inr ''mixamorig:Hips_01''
   \<and> rename_loop [\<lparr>bone_id = 0, bone_name = ''mixamorig:Hips'', bone_parent = None\<rparr>,
                   \<lparr>bone_id = 1, bone_name = ''mixamorig:Spine'', bone_parent = Some 0\<rparr>] 0
       = Inr ([\<lparr>bone_id = 0, bone_name = ''mixamorig:Hips_01'', bone_parent = None\<rparr>,
               \<lparr>bone_id = 1, bone_name = ''mixamorig:Spine_02'', bone_parent = Some 0\<rparr>], 2)
   \<and> rename_loop [\<lparr>bone_id = 0, bone_name = ''mixamorig:Hips_01'', bone_parent = None\<rparr>,
                   \<lparr>bone_id = 1, bone_name = ''mixamorig:Spine_02'', bone_parent = Some 0\<rparr>] 0
       = Inr ([\<lparr>bone_id = 0, bone_name = ''mixamorig:Hips_01'', bone_parent = None\<rparr>,
               \<lparr>bone_id = 1, bone_name = ''mixamorig:Spine_02'', bone_parent = Some 0\<rparr>], 0)
   \<and> rename_bones_to_ybot_format
         (Some ((armature_object ''Armature''
                   [\<lparr>bone_id = 0, bone_name = ''mixamorig:Hips'', bone_parent = None\<rparr>,
                    \<lparr>bone_id = 1, bone_name = ''mixamorig:Spine'', bone_parent = Some 0\<rparr>] None)
                \<lparr>edit_bones :=
                   [\<lparr>bone_id = 0, bone_name = ''mixamorig:Hips_01'', bone_parent = None\<rparr>,
                    \<lparr>bone_id = 1, bone_name = ''mixamorig:Spine_02'', bone_parent = Some 0\<rparr>]\<rparr>))
         (print (Renamed_bones_to_Y_Bot_format 2)
            (store_object
               ((armature_object ''Armature''
                   [\<lparr>bone_id = 0, bone_name = ''mixamorig:Hips'', bone_parent = None\<rparr>,
                    \<lparr>bone_id = 1, bone_name = ''mixamorig:Spine'', bone_parent = Some 0\<rparr>] None)
                \<lparr>edit_bones :=
                   [\<lparr>bone_id = 0, bone_name = ''mixamorig:Hips_01'', bone_parent = None\<rparr>,
                    \<lparr>bone_id = 1, bone_name = ''mixamorig:Spine_02'', bone_parent = Some 0\<rparr>]\<rparr>)
               (import_scene
                  [armature_object ''Armature''
                     [\<lparr>bone_id = 0, bone_name = ''mixamorig:Hips'', bone_parent = None\<rparr>,
                      \<lparr>bone_id = 1, bone_name = ''mixamorig:Spine'', bone_parent = Some 0\<rparr>] None]
                  fresh_state)))
       = Inr (print (Renamed_bones_to_Y_Bot_format 0)
               (print (Renamed_bones_to_Y_Bot_format 2)
                 (store_object
                   ((armature_object ''Armature''
                       [\<lparr>bone_id = 0, bone_name = ''mixamorig:Hips'', bone_parent = None\<rparr>,
                        \<lparr>bone_id = 1, bone_name = ''mixamorig:Spine'', bone_parent = Some 0\<rparr>] None)
                    \<lparr>edit_bones :=
                       [\<lparr>bone_id = 0, bone_name = ''mixamorig:Hips_01'', bone_parent = None\<rparr>,
                        \<lparr>bone_id = 1, bone_name = ''mixamorig:Spine_02'', bone_parent = Some 0\<rparr>]\<rparr>)
                   (import_scene
                      [armature_object ''Armature''
                         [\<lparr>bone_id = 0, bone_name = ''mixamorig:Hips'', bone_parent = None\<rparr>,
                          \<lparr>bone_id = 1, bone_name = ''mixamorig:Spine'', bone_parent = Some 0\<rparr>] None]
                      fresh_state))))"
proof -
  let ?bs = "[\<lparr>bone_id = 0, bone_name = ''mixamorig:Hips'', bone_parent = None\<rparr>,
              \<lparr>bone_id = 1, bone_name = ''mixamorig:Spine'', bone_parent = Some (0::nat)\<rparr>]"
  let ?bs' = "[\<lparr>bone_id = 0, bone_name = ''mixamorig:Hips_01'', bone_parent = None\<rparr>,
               \<lparr>bone_id = 1, bone_name = ''mixamorig:Spine_02'', bone_parent = Some (0::nat)\<rparr>]"
  let ?a = "armature_object ''Armature'' ?bs None"
  let ?s = "import_scene [?a] fresh_state"
  have a: "new_bone_name ''mixamorig:Hips'' = Inr ''mixamorig:Hips_01''"
    by code_simp
  have b: "rename_loop ?bs 0 = Inr (?bs', 2)"
    by code_simp
  have c: "obj_type ?a = ARMATURE \<and> rename_loop (edit_bones ?a) 0 = Inr (?bs', 2)"
    by code_simp
  from a b c translate_idempotent[of "''mixamorig:Hips''" "''mixamorig:Hips_01''"
      ?bs 0 ?bs' 2 0 ?a ?bs' 2 ?s]
  show ?thesis by blast
qed

text \<open>
  Claim C4. A name that is not a key of the table is returned unchanged, and the
  translation never fails: the loop body always yields a name (the one the specification's
  \<open>translate\<close> gives), and the rename loop and \<open>rename_bones_to_ybot_format\<close> always
  return, never with a \<open>KeyError\<close>.
\<close>

theorem translate_identity_default_total:
  "(\<not> dict_contains BONE_NAME_MAP n \<longrightarrow> new_bone_name n = Inr n \<and> translate n = n)
   \<and> new_bone_name n = Inr (translate n)
   \<and> (\<exists>bs' k. rename_loop bs c = Inr (bs', k))
   \<and> (\<exists>s'. rename_bones_to_ybot_format armature s = Inr s')"
  by (simp add: new_bone_name_eq translate_absent rename_loop_eq rename_bones_to_ybot_format_def
      split: option.splits)

theorem translate_identity_default_total_witness:
  "\<not> dict_contains BONE_NAME_MAP ''_rootJoint''
   \<and> new_bone_name ''_rootJoint'' = Inr ''_rootJoint''
   \<and> translate ''_rootJoint'' = ''_rootJoint''"
proof -
  have "\<not> dict_contains BONE_NAME_MAP ''_rootJoint''" by code_simp
  with translate_identity_default_total[of "''_rootJoint''"] show ?thesis by blast
qed




end
